theory Spec2Isabelle
  imports Complex_Main
begin

section \<open>The placement simulation engine of \<^verbatim>\<open>simulation/gui.py\<close>\<close>

text \<open>
  This theory embeds the state-carrying part of the class \<^verbatim>\<open>BinPackingSimulation\<close>:
  the bins, the command queue, the validation and mutation done by
  \<^verbatim>\<open>place_item_sync\<close>, the reset, and the statistics of \<^verbatim>\<open>get_simulation_state\<close>.
  Drawing on the canvas and the text widget are not modelled; they do not write the bins.

  Numbers. Coordinates and sizes are Python numbers (annotated \<^verbatim>\<open>float\<close>, the bin
  sizes are \<^verbatim>\<open>int\<close> literals). They are modelled as \<^typ>\<open>real\<close> with exact arithmetic:
  this is exact for Python's unbounded integers and for every comparison on them, and it
  leaves out the rounding of binary floating point. Identifiers are \<^typ>\<open>int\<close>.
\<close>

subsection \<open>Data\<close>

text \<open>The dataclass \<^verbatim>\<open>PlacedItem\<close>, field for field.\<close>

record PlacedItem =
  item_id :: int
  item_type :: string
  bin_id :: int
  x :: real
  y :: real
  width :: real
  height :: real
  shape :: string

text \<open>
  One value of the dictionary \<^verbatim>\<open>self.bins\<close>: \<^verbatim>\<open>{"width": .., "height": .., "items": [..]}\<close>.
  The keys \<^verbatim>\<open>width\<close> and \<^verbatim>\<open>height\<close> carry the prefix \<open>bin_\<close> here, since the item's
  fields already have these names.
\<close>

record bin_data =
  bin_width :: real
  bin_height :: real
  items :: "PlacedItem list"

text \<open>
  A command dictionary on the queue, by its \<^verbatim>\<open>"type"\<close>: \<^verbatim>\<open>"place_item"\<close> with its eight
  fields (item id, bin id, x, y, width, height, shape, item type), \<^verbatim>\<open>"reset"\<close>,
  \<^verbatim>\<open>"update_stats"\<close>, and any other type, which \<^verbatim>\<open>execute_command\<close> ignores.
\<close>

datatype command =
  Place_item int int real real real real string string
  | Reset
  | Update_stats
  | Other_type

text \<open>
  The simulation object: \<^verbatim>\<open>self.bins\<close> is a Python dictionary, kept here as an
  association list in insertion order and read with \<^const>\<open>map_of\<close>;
  \<^verbatim>\<open>self.command_queue\<close> is a FIFO queue whose entries are commands or the
  sentinel \<^verbatim>\<open>None\<close>.
\<close>

record simulation =
  bins :: "(int \<times> bin_data) list"
  command_queue :: "command option list"

datatype py_error = ZeroDivisionError

text \<open>The state built by \<^verbatim>\<open>__init__\<close>: four empty bins and an empty queue.\<close>

definition init_simulation :: simulation where
  "init_simulation =
     \<lparr> bins =
         [(0, \<lparr> bin_width = 220, bin_height = 220, items = [] \<rparr>),
          (1, \<lparr> bin_width = 180, bin_height = 200, items = [] \<rparr>),
          (2, \<lparr> bin_width = 200, bin_height = 180, items = [] \<rparr>),
          (3, \<lparr> bin_width = 160, bin_height = 160, items = [] \<rparr>)],
       command_queue = [] \<rparr>"

subsection \<open>Python's \<^verbatim>\<open>str\<close> on integers, as used by the f-strings\<close>

fun str_nat :: "nat \<Rightarrow> string" where
  "str_nat n =
     (if n < 10 then [''0123456789'' ! n]
      else str_nat (n div 10) @ [''0123456789'' ! (n mod 10)])"

declare str_nat.simps [simp del]

definition str_int :: "int \<Rightarrow> string" where
  "str_int i = (if i < 0 then CHR ''-'' # str_nat (nat (- i)) else str_nat (nat i))"

subsection \<open>Geometry: \<^verbatim>\<open>items_overlap\<close>\<close>

definition items_overlap :: "PlacedItem \<Rightarrow> PlacedItem \<Rightarrow> bool" where
  "items_overlap item1 item2 \<longleftrightarrow>
     \<not> (x item1 + width item1 \<le> x item2 \<or>
        x item2 + width item2 \<le> x item1 \<or>
        y item1 + height item1 \<le> y item2 \<or>
        y item2 + height item2 \<le> y item1)"

text \<open>
  The loop \<^verbatim>\<open>for existing_item in bin_data["items"]\<close> of \<^verbatim>\<open>place_item_sync\<close>: it
  returns at the first existing item that overlaps the new one.
\<close>

fun first_overlap :: "PlacedItem \<Rightarrow> PlacedItem list \<Rightarrow> PlacedItem option" where
  "first_overlap new_item [] = None"
| "first_overlap new_item (existing_item # rest) =
     (if items_overlap new_item existing_item then Some existing_item
      else first_overlap new_item rest)"

text \<open>
  \<^verbatim>\<open>bin_data["items"].append(new_item)\<close>, where \<^verbatim>\<open>bin_data = self.bins[bin_id]\<close>: the
  entry that the lookup finds gets the item at the end of its list.
\<close>

fun append_item :: "int \<Rightarrow> PlacedItem \<Rightarrow> (int \<times> bin_data) list \<Rightarrow> (int \<times> bin_data) list" where
  "append_item b new_item [] = []"
| "append_item b new_item ((k, d) # rest) =
     (if k = b then (k, d\<lparr> items := items d @ [new_item] \<rparr>) # rest
      else (k, d) # append_item b new_item rest)"

subsection \<open>\<^verbatim>\<open>place_item_sync\<close>\<close>

text \<open>
  The function returns its message; the second component is the simulation afterwards.
  The order of the checks is the source's: bin lookup, the bounds test, the overlap loop,
  then the append. After the append the source redraws and refreshes the statistics, which
  reads the bins only (see \<open>placed_stats_defined\<close> below for why that refresh cannot raise).
\<close>

definition place_item_sync ::
  "simulation \<Rightarrow> int \<Rightarrow> int \<Rightarrow> real \<Rightarrow> real \<Rightarrow> real \<Rightarrow> real \<Rightarrow> string \<Rightarrow> string
     \<Rightarrow> string \<times> simulation" where
  "place_item_sync s iid b px py w h shp ity =
     (case map_of (bins s) b of
        None \<Rightarrow> (''Error: Bin '' @ str_int b @ '' does not exist'', s)
      | Some d \<Rightarrow>
          if px + w > bin_width d \<or> py + h > bin_height d
          then (''Error: Item '' @ str_int iid @ '' does not fit in bin '' @ str_int b, s)
          else
            let new_item = \<lparr> item_id = iid, item_type = ity, bin_id = b,
                             x = px, y = py, width = w, height = h, shape = shp \<rparr>
            in (case first_overlap new_item (items d) of
                  Some existing_item \<Rightarrow>
                    (''Error: Item '' @ str_int iid @ '' overlaps with existing item ''
                       @ str_int (item_id existing_item), s)
                | None \<Rightarrow>
                    (''Successfully placed item '' @ str_int iid @ '' in bin '' @ str_int b,
                     s\<lparr> bins := append_item b new_item (bins s) \<rparr>)))"

subsection \<open>\<^verbatim>\<open>get_simulation_state\<close>\<close>

text \<open>The dictionary built for one item, and the one built for one bin.\<close>

type_synonym item_dict = "int \<times> string \<times> real \<times> real \<times> real \<times> real \<times> string"

definition item_entry :: "PlacedItem \<Rightarrow> item_dict" where
  "item_entry item =
     (item_id item, item_type item, x item, y item, width item, height item, shape item)"

record bin_state =
  state_width :: real
  state_height :: real
  state_items :: "item_dict list"
  utilization :: real

record simulation_state =
  state_bins :: "(int \<times> bin_state) list"
  total_items :: int
  total_utilization :: real

text \<open>One pass of the loop \<^verbatim>\<open>for bin_id, bin_data in self.bins.items()\<close>.\<close>

definition state_step :: "simulation_state \<Rightarrow> int \<times> bin_data \<Rightarrow> simulation_state" where
  "state_step st entry =
     (let d = snd entry;
          used_area = sum_list (map (\<lambda>item. width item * height item) (items d));
          total_area = bin_width d * bin_height d;
          u = (if total_area > 0 then used_area / total_area * 100 else 0)
      in \<lparr> state_bins = state_bins st @
             [(fst entry, \<lparr> state_width = bin_width d, state_height = bin_height d,
                           state_items = map item_entry (items d), utilization = u \<rparr>)],
           total_items = total_items st + int (length (items d)),
           total_utilization = total_utilization st + u \<rparr>)"

text \<open>
  The final \<^verbatim>\<open>state["total_utilization"] /= len(self.bins)\<close> raises
  \<^verbatim>\<open>ZeroDivisionError\<close> when there is no bin.
\<close>

definition get_simulation_state :: "simulation \<Rightarrow> py_error + simulation_state" where
  "get_simulation_state s =
     (let st = foldl state_step
                 \<lparr> state_bins = [], total_items = 0, total_utilization = 0 \<rparr> (bins s)
      in if length (bins s) = 0 then Inl ZeroDivisionError
         else Inr (st\<lparr> total_utilization := total_utilization st / real (length (bins s)) \<rparr>))"

text \<open>\<^verbatim>\<open>update_stats_sync\<close> computes the state and writes it to the text widget.\<close>

definition update_stats_sync :: "simulation \<Rightarrow> py_error + unit" where
  "update_stats_sync s = (case get_simulation_state s of Inl e \<Rightarrow> Inl e | Inr st \<Rightarrow> Inr ())"

subsection \<open>\<^verbatim>\<open>reset_simulation_sync\<close>\<close>

text \<open>
  Every bin's list is cleared first; the statistics refresh that follows can raise (no
  bin), and the cleared lists stay cleared then.
\<close>

definition reset_simulation_sync :: "simulation \<Rightarrow> (py_error + unit) \<times> simulation" where
  "reset_simulation_sync s =
     (let s' = s\<lparr> bins := map (\<lambda>entry. (fst entry, (snd entry)\<lparr> items := [] \<rparr>)) (bins s) \<rparr>
      in (update_stats_sync s', s'))"

subsection \<open>The queue: \<^verbatim>\<open>place_item\<close>, \<^verbatim>\<open>reset_simulation\<close>, \<^verbatim>\<open>execute_command\<close>, the drain loop\<close>

text \<open>
  \<^verbatim>\<open>place_item\<close> puts the command on the queue and returns its f-string at once. The
  f-string prints the two coordinates with Python's \<^verbatim>\<open>str\<close>; that rendering of a number
  is the parameter \<open>str_num\<close>.
\<close>

definition place_item ::
  "(real \<Rightarrow> string) \<Rightarrow> simulation \<Rightarrow> int \<Rightarrow> int \<Rightarrow> real \<Rightarrow> real \<Rightarrow> real \<Rightarrow> real \<Rightarrow> string \<Rightarrow> string
     \<Rightarrow> string \<times> simulation" where
  "place_item str_num s iid b px py w h shp ity =
     (''Placed item '' @ str_int iid @ '' in bin '' @ str_int b
        @ '' at ('' @ str_num px @ '', '' @ str_num py @ '')'',
      s\<lparr> command_queue := command_queue s @ [Some (Place_item iid b px py w h shp ity)] \<rparr>)"

definition reset_simulation :: "simulation \<Rightarrow> string \<times> simulation" where
  "reset_simulation s =
     (''Simulation reset'', s\<lparr> command_queue := command_queue s @ [Some Reset] \<rparr>)"

text \<open>
  \<^verbatim>\<open>execute_command\<close> calls the synchronous operation and drops what it returns; only
  an exception leaves the call.
\<close>

definition execute_command :: "simulation \<Rightarrow> command \<Rightarrow> (py_error + unit) \<times> simulation" where
  "execute_command s c =
     (case c of
        Place_item iid b px py w h shp ity \<Rightarrow>
          (Inr (), snd (place_item_sync s iid b px py w h shp ity))
      | Reset \<Rightarrow> reset_simulation_sync s
      | Update_stats \<Rightarrow> (update_stats_sync s, s)
      | Other_type \<Rightarrow> (Inr (), s))"

text \<open>
  One run of \<^verbatim>\<open>process_commands\<close>: commands are taken from the front of the queue and
  executed until the queue is empty or the sentinel \<^verbatim>\<open>None\<close> is taken; an exception
  of a command ends the run.
\<close>

function process_commands :: "simulation \<Rightarrow> (py_error + unit) \<times> simulation" where
  "process_commands s =
     (case command_queue s of
        [] \<Rightarrow> (Inr (), s)
      | None # rest \<Rightarrow> (Inr (), s\<lparr> command_queue := rest \<rparr>)
      | Some c # rest \<Rightarrow>
          (let r = execute_command (s\<lparr> command_queue := rest \<rparr>) c
           in case fst r of
                Inl e \<Rightarrow> (Inl e, snd r)
              | Inr u \<Rightarrow> process_commands (snd r)))"
  by pat_completeness auto

termination
  by (relation "measure (\<lambda>s. length (command_queue s))")
     (auto simp: execute_command_def place_item_sync_def reset_simulation_sync_def Let_def
        split: command.splits option.splits)

declare process_commands.simps [simp del]

subsection \<open>Reachable simulations\<close>

text \<open>
  What the program can do to a simulation object: construct it, call the public
  \<^verbatim>\<open>place_item\<close> and \<^verbatim>\<open>reset_simulation\<close> from any thread, and let the GUI thread run
  \<^verbatim>\<open>process_commands\<close>.
\<close>

inductive reachable :: "simulation \<Rightarrow> bool" where
  reachable_init: "reachable init_simulation"
| reachable_place_item:
    "reachable s \<Longrightarrow> reachable (snd (place_item str_num s iid b px py w h shp ity))"
| reachable_reset_simulation:
    "reachable s \<Longrightarrow> reachable (snd (reset_simulation s))"
| reachable_process_commands:
    "reachable s \<Longrightarrow> reachable (snd (process_commands s))"

subsection \<open>Properties of a simulation that the claims speak about\<close>

text \<open>The new item as \<^verbatim>\<open>place_item_sync\<close> constructs it from its arguments.\<close>

abbreviation new_item_of ::
  "int \<Rightarrow> int \<Rightarrow> real \<Rightarrow> real \<Rightarrow> real \<Rightarrow> real \<Rightarrow> string \<Rightarrow> string \<Rightarrow> PlacedItem" where
  "new_item_of iid b px py w h shp ity \<equiv>
     \<lparr> item_id = iid, item_type = ity, bin_id = b,
       x = px, y = py, width = w, height = h, shape = shp \<rparr>"

text \<open>The four texts \<^verbatim>\<open>place_item_sync\<close> can return.\<close>

abbreviation msg_no_bin :: "int \<Rightarrow> string" where
  "msg_no_bin b \<equiv> ''Error: Bin '' @ str_int b @ '' does not exist''"

abbreviation msg_no_fit :: "int \<Rightarrow> int \<Rightarrow> string" where
  "msg_no_fit iid b \<equiv> ''Error: Item '' @ str_int iid @ '' does not fit in bin '' @ str_int b"

abbreviation msg_overlap :: "int \<Rightarrow> int \<Rightarrow> string" where
  "msg_overlap iid other \<equiv>
     ''Error: Item '' @ str_int iid @ '' overlaps with existing item '' @ str_int other"

abbreviation msg_placed :: "int \<Rightarrow> int \<Rightarrow> string" where
  "msg_placed iid b \<equiv> ''Successfully placed item '' @ str_int iid @ '' in bin '' @ str_int b"

text \<open>No two items at different positions of one list overlap.\<close>

definition overlap_free :: "PlacedItem list \<Rightarrow> bool" where
  "overlap_free its \<longleftrightarrow>
     (\<forall>i < length its. \<forall>j < length its. i \<noteq> j \<longrightarrow> \<not> items_overlap (its ! i) (its ! j))"

definition bins_overlap_free :: "simulation \<Rightarrow> bool" where
  "bins_overlap_free s \<longleftrightarrow> (\<forall>entry \<in> set (bins s). overlap_free (items (snd entry)))"

text \<open>
  The fit check in the words of the specification (section 4.1), with its two lower
  bounds; the check of the code is the condition inside \<^const>\<open>place_item_sync\<close>.
\<close>

definition spec_fit_check :: "real \<Rightarrow> real \<Rightarrow> real \<Rightarrow> real \<Rightarrow> bin_data \<Rightarrow> bool" where
  "spec_fit_check px py w h d \<longleftrightarrow>
     px \<ge> 0 \<and> py \<ge> 0 \<and> px + w \<le> bin_width d \<and> py + h \<le> bin_height d"

text \<open>
  The states of the specification's scenario (section 8): item 1 placed at (0, 0), then
  item 2 tried at (25, 25), then item 3 placed at (60, 0), all 50 by 50 in bin 0.
\<close>

definition scenario_A :: simulation where
  "scenario_A = snd (place_item_sync init_simulation 1 0 0 0 50 50 ''RECTANGLE'' ''Rectangle A'')"

definition scenario_B :: simulation where
  "scenario_B = snd (place_item_sync scenario_A 2 0 25 25 50 50 ''RECTANGLE'' ''Rectangle A'')"

definition scenario_C :: simulation where
  "scenario_C = snd (place_item_sync scenario_B 3 0 60 0 50 50 ''RECTANGLE'' ''Rectangle A'')"

text \<open>
  What one pass of the statistics loop stores for a bin, named for the lemmas about
  \<^const>\<open>get_simulation_state\<close>.
\<close>

definition utilization_of :: "bin_data \<Rightarrow> real" where
  "utilization_of d =
     (if bin_width d * bin_height d > 0
      then sum_list (map (\<lambda>item. width item * height item) (items d))
             / (bin_width d * bin_height d) * 100
      else 0)"

definition bin_state_of :: "bin_data \<Rightarrow> bin_state" where
  "bin_state_of d =
     \<lparr> state_width = bin_width d, state_height = bin_height d,
       state_items = map item_entry (items d), utilization = utilization_of d \<rparr>"

section \<open>Auxiliary facts\<close>

lemma first_overlap_None:
  "first_overlap n es = None \<longleftrightarrow> (\<forall>e \<in> set es. \<not> items_overlap n e)"
  by (induction es) auto


lemma items_overlap_sym: "items_overlap a b \<longleftrightarrow> items_overlap b a"
  by (auto simp: items_overlap_def)

lemma map_fst_append_item: "map fst (append_item b it bs) = map fst bs"
  by (induction bs) auto

lemma set_append_item:
  "map_of bs b = Some d \<Longrightarrow>
   set (append_item b it bs) \<subseteq> insert (b, d\<lparr> items := items d @ [it] \<rparr>) (set bs)"
  by (induction bs) (auto split: if_splits)

lemma map_of_append_item:
  "map_of bs b = Some d \<Longrightarrow>
   map_of (append_item b it bs) = (map_of bs)(b \<mapsto> d\<lparr> items := items d @ [it] \<rparr>)"
  by (induction bs) (auto split: if_splits)

lemma place_missing:
  "map_of (bins s) b = None \<Longrightarrow>
   place_item_sync s iid b px py w h shp ity = (msg_no_bin b, s)"
  by (simp add: place_item_sync_def)

lemma place_no_fit:
  "map_of (bins s) b = Some d \<Longrightarrow> px + w > bin_width d \<or> py + h > bin_height d \<Longrightarrow>
   place_item_sync s iid b px py w h shp ity = (msg_no_fit iid b, s)"
  by (simp add: place_item_sync_def)

lemma place_overlap:
  "map_of (bins s) b = Some d \<Longrightarrow> px + w \<le> bin_width d \<Longrightarrow> py + h \<le> bin_height d \<Longrightarrow>
   first_overlap (new_item_of iid b px py w h shp ity) (items d) = Some e \<Longrightarrow>
   place_item_sync s iid b px py w h shp ity = (msg_overlap iid (item_id e), s)"
  by (simp add: place_item_sync_def)

lemma place_ok:
  "map_of (bins s) b = Some d \<Longrightarrow> px + w \<le> bin_width d \<Longrightarrow> py + h \<le> bin_height d \<Longrightarrow>
   first_overlap (new_item_of iid b px py w h shp ity) (items d) = None \<Longrightarrow>
   place_item_sync s iid b px py w h shp ity =
     (msg_placed iid b, s\<lparr> bins := append_item b (new_item_of iid b px py w h shp ity) (bins s) \<rparr>)"
  by (simp add: place_item_sync_def)

text \<open>The four cases, exhaustively.\<close>

lemma place_cases:
  obtains
    (missing) "map_of (bins s) b = None"
      "place_item_sync s iid b px py w h shp ity = (msg_no_bin b, s)"
  | (no_fit) d where "map_of (bins s) b = Some d"
      "px + w > bin_width d \<or> py + h > bin_height d"
      "place_item_sync s iid b px py w h shp ity = (msg_no_fit iid b, s)"
  | (overlap) d e where "map_of (bins s) b = Some d"
      "px + w \<le> bin_width d" "py + h \<le> bin_height d"
      "first_overlap (new_item_of iid b px py w h shp ity) (items d) = Some e"
      "place_item_sync s iid b px py w h shp ity = (msg_overlap iid (item_id e), s)"
  | (placed) d where "map_of (bins s) b = Some d"
      "px + w \<le> bin_width d" "py + h \<le> bin_height d"
      "first_overlap (new_item_of iid b px py w h shp ity) (items d) = None"
      "place_item_sync s iid b px py w h shp ity =
         (msg_placed iid b,
          s\<lparr> bins := append_item b (new_item_of iid b px py w h shp ity) (bins s) \<rparr>)"
proof (cases "map_of (bins s) b")
  case None
  then show ?thesis using missing place_missing by blast
next
  case (Some d)
  show ?thesis
  proof (cases "px + w > bin_width d \<or> py + h > bin_height d")
    case True
    then show ?thesis using no_fit Some place_no_fit by blast
  next
    case False
    then have le: "px + w \<le> bin_width d" "py + h \<le> bin_height d" by auto
    show ?thesis
    proof (cases "first_overlap (new_item_of iid b px py w h shp ity) (items d)")
      case None
      then show ?thesis using placed Some le place_ok by blast
    next
      case (Some e)
      then show ?thesis using overlap \<open>map_of (bins s) b = Some d\<close> le place_overlap by blast
    qed
  qed
qed

lemma msg_placed_neq [simp]:
  "msg_placed iid b \<noteq> msg_no_bin b'"
  "msg_placed iid b \<noteq> msg_no_fit iid' b'"
  "msg_placed iid b \<noteq> msg_overlap iid' e"
  "msg_no_bin b' \<noteq> msg_placed iid b"
  "msg_no_fit iid' b' \<noteq> msg_placed iid b"
  "msg_overlap iid' e \<noteq> msg_placed iid b"
  by simp_all

lemma msg_no_fit_neq [simp]:
  "msg_no_fit iid b \<noteq> msg_no_bin b'"
  "msg_no_fit iid b \<noteq> msg_overlap iid e"
  "msg_no_bin b' \<noteq> msg_no_fit iid b"
  "msg_overlap iid e \<noteq> msg_no_fit iid b"
  by simp_all


lemma overlap_free_append:
  assumes "overlap_free its" and "\<forall>e \<in> set its. \<not> items_overlap n e"
  shows "overlap_free (its @ [n])"
  unfolding overlap_free_def
proof (intro allI impI)
  fix i j
  assume i: "i < length (its @ [n])" and j: "j < length (its @ [n])" and ne: "i \<noteq> j"
  consider (old) "i < length its" "j < length its"
    | (new_left) "i = length its" "j < length its"
    | (new_right) "i < length its" "j = length its"
    using i j ne by force
  then show "\<not> items_overlap ((its @ [n]) ! i) ((its @ [n]) ! j)"
  proof cases
    case old
    then show ?thesis using assms(1) ne by (simp add: overlap_free_def nth_append)
  next
    case new_left
    then show ?thesis using assms(2) by (simp add: nth_append)
  next
    case new_right
    then have "\<not> items_overlap n (its ! i)" using assms(2) by simp
    then show ?thesis using new_right items_overlap_sym by (simp add: nth_append)
  qed
qed

lemma placed_entries:
  assumes "map_of (bins s) b = Some d"
    and "entry \<in> set (append_item b n (bins s))"
  shows "entry \<in> set (bins s) \<or> entry = (b, d\<lparr> items := items d @ [n] \<rparr>)"
  using set_append_item [OF assms(1), of n] assms(2) by auto

lemma bins_overlap_free_place:
  assumes "bins_overlap_free s"
  shows "bins_overlap_free (snd (place_item_sync s iid b px py w h shp ity))"
proof (cases rule: place_cases [of s b iid px py w h shp ity])
  case (placed d)
  have mem: "(b, d) \<in> set (bins s)" using placed(1) by (rule map_of_SomeD)
  then have "overlap_free (items d)" using assms by (force simp: bins_overlap_free_def)
  moreover have "\<forall>e \<in> set (items d). \<not> items_overlap (new_item_of iid b px py w h shp ity) e"
    using placed(4) by (simp add: first_overlap_None)
  ultimately have new: "overlap_free (items d @ [new_item_of iid b px py w h shp ity])"
    by (rule overlap_free_append)
  show ?thesis
    unfolding placed(5) bins_overlap_free_def
  proof (intro ballI)
    fix entry
    assume "entry \<in> set (bins (snd (msg_placed iid b,
        s\<lparr> bins := append_item b (new_item_of iid b px py w h shp ity) (bins s) \<rparr>)))"
    then have "entry \<in> set (bins s) \<or>
        entry = (b, d\<lparr> items := items d @ [new_item_of iid b px py w h shp ity] \<rparr>)"
      using placed_entries [OF placed(1)] by simp
    then show "overlap_free (items (snd entry))"
      using assms new by (auto simp: bins_overlap_free_def)
  qed
qed (simp_all add: assms)

subsection \<open>The statistics loop\<close>

lemma state_step_eq:
  "state_step st entry =
     \<lparr> state_bins = state_bins st @ [(fst entry, bin_state_of (snd entry))],
       total_items = total_items st + int (length (items (snd entry))),
       total_utilization = total_utilization st + utilization_of (snd entry) \<rparr>"
  by (simp add: state_step_def Let_def bin_state_of_def utilization_of_def)

lemma foldl_state_step:
  "foldl state_step st bs =
     \<lparr> state_bins = state_bins st @ map (\<lambda>e. (fst e, bin_state_of (snd e))) bs,
       total_items = total_items st + (\<Sum>e\<leftarrow>bs. int (length (items (snd e)))),
       total_utilization = total_utilization st + (\<Sum>e\<leftarrow>bs. utilization_of (snd e)) \<rparr>"
proof (induction bs arbitrary: st)
  case Nil
  show ?case by simp
next
  case (Cons e bs)
  have fields:
    "state_bins (state_step st e) = state_bins st @ [(fst e, bin_state_of (snd e))]"
    "total_items (state_step st e) = total_items st + int (length (items (snd e)))"
    "total_utilization (state_step st e) = total_utilization st + utilization_of (snd e)"
    by (simp_all add: state_step_eq)
  show ?case
    by (simp only: foldl_Cons Cons.IH fields) (simp add: add.assoc)
qed

lemma get_simulation_state_empty:
  "bins s = [] \<Longrightarrow> get_simulation_state s = Inl ZeroDivisionError"
  by (simp add: get_simulation_state_def)

lemma get_simulation_state_bins:
  "bins s \<noteq> [] \<Longrightarrow>
   get_simulation_state s =
     Inr \<lparr> state_bins = map (\<lambda>e. (fst e, bin_state_of (snd e))) (bins s),
           total_items = (\<Sum>e\<leftarrow>bins s. int (length (items (snd e)))),
           total_utilization =
             (\<Sum>e\<leftarrow>bins s. utilization_of (snd e)) / real (length (bins s)) \<rparr>"
  by (simp add: get_simulation_state_def foldl_state_step)

lemma update_stats_sync_ok: "bins s \<noteq> [] \<Longrightarrow> update_stats_sync s = Inr ()"
  by (simp add: update_stats_sync_def get_simulation_state_bins)

lemma update_stats_sync_empty: "bins s = [] \<Longrightarrow> update_stats_sync s = Inl ZeroDivisionError"
  by (simp add: update_stats_sync_def get_simulation_state_empty)

subsection \<open>Reset\<close>

lemma bins_reset:
  "bins (snd (reset_simulation_sync s)) = map (\<lambda>e. (fst e, (snd e)\<lparr> items := [] \<rparr>)) (bins s)"
  by (simp add: reset_simulation_sync_def Let_def)

lemma queue_reset: "command_queue (snd (reset_simulation_sync s)) = command_queue s"
  by (simp add: reset_simulation_sync_def Let_def)

lemma fst_reset: "fst (reset_simulation_sync s) = update_stats_sync (snd (reset_simulation_sync s))"
  by (simp add: reset_simulation_sync_def Let_def)

lemma reset_reset:
  "reset_simulation_sync (snd (reset_simulation_sync s)) = reset_simulation_sync s"
  by (simp add: reset_simulation_sync_def Let_def comp_def)

lemma utilization_of_cleared: "utilization_of (d\<lparr> items := [] \<rparr>) = 0"
  by (simp add: utilization_of_def)

lemma sum_list_zero: "(\<And>e. e \<in> set es \<Longrightarrow> f e = 0) \<Longrightarrow> (\<Sum>e\<leftarrow>es. f e) = (0::'a::monoid_add)"
  by (induction es) simp_all

subsection \<open>Commands and the drain loop\<close>

lemma execute_command_queue:
  "command_queue (snd (execute_command s c)) = command_queue s"
  by (cases c)
     (simp_all add: execute_command_def place_item_sync_def reset_simulation_sync_def Let_def
        split: option.splits)

lemma bins_overlap_free_queue [simp]:
  "bins_overlap_free (s\<lparr> command_queue := q \<rparr>) = bins_overlap_free s"
  by (simp add: bins_overlap_free_def)

lemma bins_overlap_free_reset: "bins_overlap_free (snd (reset_simulation_sync s))"
  by (simp add: bins_overlap_free_def bins_reset overlap_free_def)

lemma bins_overlap_free_execute:
  "bins_overlap_free s \<Longrightarrow> bins_overlap_free (snd (execute_command s c))"
  by (cases c)
     (simp_all add: execute_command_def bins_overlap_free_place bins_overlap_free_reset)

text \<open>
  A property of the bins that every command keeps and that does not read the queue is
  kept by a whole run of the drain loop.
\<close>

lemma process_commands_keeps:
  assumes step: "\<And>s c. P s \<Longrightarrow> P (snd (execute_command s c))"
    and queue: "\<And>s q. P (s\<lparr> command_queue := q \<rparr>) = P s"
  shows "P s \<Longrightarrow> P (snd (process_commands s))"
proof (induction s rule: process_commands.induct)
  case (1 s)
  show ?case
  proof (cases "command_queue s")
    case Nil
    then show ?thesis using "1.prems" by (simp add: process_commands.simps [of s])
  next
    case (Cons a rest)
    show ?thesis
    proof (cases a)
      case None
      then show ?thesis
        using Cons "1.prems" by (simp add: process_commands.simps [of s] queue)
    next
      case (Some c)
      define r where "r = execute_command (s\<lparr> command_queue := rest \<rparr>) c"
      have Pr: "P (snd r)"
        unfolding r_def using "1.prems" by (simp add: step queue)
      show ?thesis
      proof (cases "fst r")
        case (Inl e)
        then show ?thesis
          using Cons Some Pr by (simp add: process_commands.simps [of s] r_def Let_def)
      next
        case (Inr u)
        have "P (snd (process_commands (snd r)))"
          using "1.IH" [OF Cons Some r_def Inr Pr] .
        then show ?thesis
          using Cons Some Inr by (simp add: process_commands.simps [of s] r_def Let_def)
      qed
    qed
  qed
qed

lemma reachable_keeps:
  assumes init: "P init_simulation"
    and step: "\<And>s c. P s \<Longrightarrow> P (snd (execute_command s c))"
    and queue: "\<And>s q. P (s\<lparr> command_queue := q \<rparr>) = P s"
  shows "reachable s \<Longrightarrow> P s"
proof (induction rule: reachable.induct)
  case reachable_init
  show ?case by (rule init)
next
  case (reachable_place_item s str_num iid b px py w h shp ity)
  then show ?case by (simp add: place_item_def queue)
next
  case (reachable_reset_simulation s)
  then show ?case by (simp add: reset_simulation_def queue)
next
  case (reachable_process_commands s)
  then show ?case using process_commands_keeps [of P, OF step queue] by blast
qed

lemma reachable_bins_overlap_free: "reachable s \<Longrightarrow> bins_overlap_free s"
  by (rule reachable_keeps [of bins_overlap_free])
     (simp_all add: bins_overlap_free_execute,
      simp add: bins_overlap_free_def init_simulation_def overlap_free_def)

subsection \<open>Bins are never added, removed or resized\<close>

lemma bin_frames_append_item:
  "map (\<lambda>e. (fst e, bin_width (snd e), bin_height (snd e))) (append_item b it bs)
     = map (\<lambda>e. (fst e, bin_width (snd e), bin_height (snd e))) bs"
  by (induction bs) auto

lemma bin_frames_place:
  "map (\<lambda>e. (fst e, bin_width (snd e), bin_height (snd e)))
       (bins (snd (place_item_sync s iid b px py w h shp ity)))
     = map (\<lambda>e. (fst e, bin_width (snd e), bin_height (snd e))) (bins s)"
  by (cases rule: place_cases [of s b iid px py w h shp ity])
     (simp_all add: bin_frames_append_item)

lemma bin_frames_reset:
  "map (\<lambda>e. (fst e, bin_width (snd e), bin_height (snd e)))
       (bins (snd (reset_simulation_sync s)))
     = map (\<lambda>e. (fst e, bin_width (snd e), bin_height (snd e))) (bins s)"
  by (simp add: bins_reset comp_def)

lemma bin_frames_execute:
  "map (\<lambda>e. (fst e, bin_width (snd e), bin_height (snd e))) (bins (snd (execute_command s c)))
     = map (\<lambda>e. (fst e, bin_width (snd e), bin_height (snd e))) (bins s)"
  by (cases c) (simp_all add: execute_command_def bin_frames_place bin_frames_reset)

text \<open>Bin identities and sizes never change: they are those of \<^const>\<open>init_simulation\<close>.\<close>

lemma reachable_bin_frames:
  "reachable s \<Longrightarrow>
   map (\<lambda>e. (fst e, bin_width (snd e), bin_height (snd e))) (bins s)
     = [(0, 220, 220), (1, 180, 200), (2, 200, 180), (3, 160, 160)]"
  by (rule reachable_keeps
        [of "\<lambda>s. map (\<lambda>e. (fst e, bin_width (snd e), bin_height (snd e))) (bins s)
               = [(0, 220, 220), (1, 180, 200), (2, 200, 180), (3, 160, 160)]"])
     (simp_all add: bin_frames_execute, simp add: init_simulation_def)

lemma reachable_has_bins: "reachable s \<Longrightarrow> bins s \<noteq> []"
  using reachable_bin_frames [of s] by auto

text \<open>
  The statistics refresh at the end of a successful \<^verbatim>\<open>place_item_sync\<close> cannot raise:
  the target bin exists, so there is a bin to divide by.
\<close>

lemma placed_stats_defined:
  "fst (place_item_sync s iid b px py w h shp ity) = msg_placed iid b \<Longrightarrow>
   update_stats_sync (snd (place_item_sync s iid b px py w h shp ity)) = Inr ()"
proof (cases rule: place_cases [of s b iid px py w h shp ity])
  case (placed d)
  have "map fst (bins (snd (place_item_sync s iid b px py w h shp ity))) = map fst (bins s)"
    by (simp add: placed(5) map_fst_append_item)
  moreover have "bins s \<noteq> []" using placed(1) by auto
  ultimately have "bins (snd (place_item_sync s iid b px py w h shp ity)) \<noteq> []"
    by (metis map_is_Nil_conv)
  then show ?thesis by (rule update_stats_sync_ok)
qed simp_all

section \<open>The claims\<close>

lemmas run_simps = place_item_sync_def init_simulation_def str_int_def str_nat.simps
  items_overlap_def scenario_A_def scenario_B_def scenario_C_def

subsection \<open>C1: the fit check and the fit invariant\<close>

text \<open>
  C1. An item is accepted by the fit check iff \<open>x \<ge> 0\<close>, \<open>y \<ge> 0\<close>,
  \<open>x + width \<le> bin.width\<close> and \<open>y + height \<le> bin.height\<close>, so that every placed item
  lies inside its bin. The check of \<^verbatim>\<open>place_item_sync\<close>, under its comment
  \<^verbatim>\<open># Check if item fits in bin\<close>, tests the two upper bounds and misses the two lower
  ones: on the fresh simulation, item 1 at (-100, 0) of size 50 by 50 lies wholly to the
  left of bin 0, fails the fit check of the specification, and is placed; bin 0 then
  holds an item with \<open>x < 0\<close>.
\<close>

theorem fit_check_misses_lower_bounds:
  "\<not> spec_fit_check (- 100) 0 50 50 \<lparr> bin_width = 220, bin_height = 220, items = [] \<rparr> \<and>
   place_item_sync init_simulation 1 0 (- 100) 0 50 50 ''RECTANGLE'' ''Rectangle A''
     = (''Successfully placed item 1 in bin 0'',
        \<lparr> bins =
            [(0, \<lparr> bin_width = 220, bin_height = 220,
                   items = [new_item_of 1 0 (- 100) 0 50 50 ''RECTANGLE'' ''Rectangle A''] \<rparr>),
             (1, \<lparr> bin_width = 180, bin_height = 200, items = [] \<rparr>),
             (2, \<lparr> bin_width = 200, bin_height = 180, items = [] \<rparr>),
             (3, \<lparr> bin_width = 160, bin_height = 160, items = [] \<rparr>)],
          command_queue = [] \<rparr>) \<and>
   x (new_item_of 1 0 (- 100) 0 50 50 ''RECTANGLE'' ''Rectangle A'') < 0"
  by (simp add: run_simps spec_fit_check_def)

subsection \<open>C2: the overlap test and the no-overlap invariant\<close>

text \<open>
  C2. Two boxes overlap iff none of the four separations holds (the first ends left of the
  second, the second ends left of the first, the first ends above the second, the second
  ends above the first). A placement whose box overlaps an item already in the target bin
  is rejected and changes nothing. The outcome reads the target bin only: two simulations
  that agree on that bin give the same answer, whatever their other bins hold. So after
  every call the items of each bin are pairwise free of overlap if they were before, and
  they are in every reachable simulation.
\<close>

theorem no_overlap_invariant:
  "(items_overlap item1 item2 \<longleftrightarrow>
      \<not> (x item1 + width item1 \<le> x item2 \<or> x item2 + width item2 \<le> x item1 \<or>
         y item1 + height item1 \<le> y item2 \<or> y item2 + height item2 \<le> y item1)) \<and>
   (\<forall>d e. map_of (bins s) b = Some d \<and> e \<in> set (items d) \<and>
        items_overlap (new_item_of iid b px py w h shp ity) e \<longrightarrow>
      snd (place_item_sync s iid b px py w h shp ity) = s \<and>
      fst (place_item_sync s iid b px py w h shp ity)
        \<noteq> ''Successfully placed item '' @ str_int iid @ '' in bin '' @ str_int b) \<and>
   (map_of (bins s') b = map_of (bins s) b \<longrightarrow>
      fst (place_item_sync s' iid b px py w h shp ity)
        = fst (place_item_sync s iid b px py w h shp ity)) \<and>
   (bins_overlap_free s \<longrightarrow>
      bins_overlap_free (snd (place_item_sync s iid b px py w h shp ity))) \<and>
   (reachable s \<longrightarrow>
      (\<forall>entry \<in> set (bins s). \<forall>i < length (items (snd entry)). \<forall>j < length (items (snd entry)).
         i \<noteq> j \<longrightarrow> \<not> items_overlap (items (snd entry) ! i) (items (snd entry) ! j)))"
proof (intro conjI impI allI)
  show "items_overlap item1 item2 \<longleftrightarrow>
      \<not> (x item1 + width item1 \<le> x item2 \<or> x item2 + width item2 \<le> x item1 \<or>
         y item1 + height item1 \<le> y item2 \<or> y item2 + height item2 \<le> y item1)"
    by (simp add: items_overlap_def)
next
  fix d e
  assume a: "map_of (bins s) b = Some d \<and> e \<in> set (items d) \<and>
        items_overlap (new_item_of iid b px py w h shp ity) e"
  then show "snd (place_item_sync s iid b px py w h shp ity) = s"
    by (cases rule: place_cases [of s b iid px py w h shp ity])
       (auto simp: first_overlap_None)
  from a show "fst (place_item_sync s iid b px py w h shp ity) \<noteq> msg_placed iid b"
    by (cases rule: place_cases [of s b iid px py w h shp ity])
       (auto simp: first_overlap_None)
next
  assume "map_of (bins s') b = map_of (bins s) b"
  then show "fst (place_item_sync s' iid b px py w h shp ity)
        = fst (place_item_sync s iid b px py w h shp ity)"
    by (simp add: place_item_sync_def Let_def split: option.splits)
next
  assume "bins_overlap_free s"
  then show "bins_overlap_free (snd (place_item_sync s iid b px py w h shp ity))"
    by (rule bins_overlap_free_place)
next
  assume "reachable s"
  then have "bins_overlap_free s"
    by (rule reachable_bins_overlap_free)
  then show "\<forall>entry \<in> set (bins s). \<forall>i < length (items (snd entry)).
      \<forall>j < length (items (snd entry)).
        i \<noteq> j \<longrightarrow> \<not> items_overlap (items (snd entry) ! i) (items (snd entry) ! j)"
    by (simp add: bins_overlap_free_def overlap_free_def)
qed


theorem no_overlap_invariant_witness:
  "reachable (snd (process_commands
     (snd (place_item (\<lambda>r. []) (snd (place_item (\<lambda>r. []) (snd (place_item (\<lambda>r. [])
        init_simulation 1 0 0 0 50 50 ''RECTANGLE'' ''Rectangle A''))
        2 0 25 25 50 50 ''RECTANGLE'' ''Rectangle A''))
        3 0 60 0 50 50 ''RECTANGLE'' ''Rectangle A'')))) \<and>
   bins (snd (process_commands
     (snd (place_item (\<lambda>r. []) (snd (place_item (\<lambda>r. []) (snd (place_item (\<lambda>r. [])
        init_simulation 1 0 0 0 50 50 ''RECTANGLE'' ''Rectangle A''))
        2 0 25 25 50 50 ''RECTANGLE'' ''Rectangle A''))
        3 0 60 0 50 50 ''RECTANGLE'' ''Rectangle A''))))
     = [(0, \<lparr> bin_width = 220, bin_height = 220,
              items = [new_item_of 1 0 0 0 50 50 ''RECTANGLE'' ''Rectangle A'',
                       new_item_of 3 0 60 0 50 50 ''RECTANGLE'' ''Rectangle A''] \<rparr>),
        (1, \<lparr> bin_width = 180, bin_height = 200, items = [] \<rparr>),
        (2, \<lparr> bin_width = 200, bin_height = 180, items = [] \<rparr>),
        (3, \<lparr> bin_width = 160, bin_height = 160, items = [] \<rparr>)] \<and>
   \<not> items_overlap (new_item_of 1 0 0 0 50 50 ''RECTANGLE'' ''Rectangle A'')
       (new_item_of 3 0 60 0 50 50 ''RECTANGLE'' ''Rectangle A'') \<and>
   items_overlap (new_item_of 2 0 25 25 50 50 ''RECTANGLE'' ''Rectangle A'')
       (new_item_of 1 0 0 0 50 50 ''RECTANGLE'' ''Rectangle A'') \<and>
   snd (place_item_sync scenario_A 2 0 25 25 50 50 ''RECTANGLE'' ''Rectangle A'') = scenario_A"
proof -
  let ?one = "new_item_of 1 0 0 0 50 50 ''RECTANGLE'' ''Rectangle A''"
  let ?three = "new_item_of 3 0 60 0 50 50 ''RECTANGLE'' ''Rectangle A''"
  let ?s = "snd (process_commands
     (snd (place_item (\<lambda>r. []) (snd (place_item (\<lambda>r. []) (snd (place_item (\<lambda>r. [])
        init_simulation 1 0 0 0 50 50 ''RECTANGLE'' ''Rectangle A''))
        2 0 25 25 50 50 ''RECTANGLE'' ''Rectangle A''))
        3 0 60 0 50 50 ''RECTANGLE'' ''Rectangle A'')))"
  let ?e = "(0::int, \<lparr> bin_width = 220, bin_height = 220, items = [?one, ?three] \<rparr>)"
  have reach: "reachable ?s"
    by (intro reachable.intros)
  have bins: "bins ?s =
      [?e,
       (1, \<lparr> bin_width = 180, bin_height = 200, items = [] \<rparr>),
       (2, \<lparr> bin_width = 200, bin_height = 180, items = [] \<rparr>),
       (3, \<lparr> bin_width = 160, bin_height = 160, items = [] \<rparr>)]"
    by (simp add: run_simps place_item_def process_commands.simps execute_command_def)
  have mem: "?e \<in> set (bins ?s)"
    unfolding bins by simp
  have "\<forall>entry \<in> set (bins ?s). \<forall>i < length (items (snd entry)).
      \<forall>j < length (items (snd entry)).
        i \<noteq> j \<longrightarrow> \<not> items_overlap (items (snd entry) ! i) (items (snd entry) ! j)"
    using no_overlap_invariant [where s = ?s] reach by blast
  from this [rule_format, OF mem, of 0 1]
  have free: "\<not> items_overlap ?one ?three"
    by simp
  let ?d = "\<lparr> bin_width = 220, bin_height = 220, items = [?one] \<rparr>"
  have some: "map_of (bins scenario_A) 0 = Some ?d"
    by (simp add: run_simps)
  have hit: "items_overlap (new_item_of 2 0 25 25 50 50 ''RECTANGLE'' ''Rectangle A'') ?one"
    by (simp add: items_overlap_def)
  have same: "snd (place_item_sync scenario_A 2 0 25 25 50 50 ''RECTANGLE'' ''Rectangle A'')
      = scenario_A"
    using no_overlap_invariant
      [where s = scenario_A and b = 0 and iid = 2 and px = 25 and py = 25 and w = 50
         and h = 50 and shp = "''RECTANGLE''" and ity = "''Rectangle A''"] some hit
    by auto
  show ?thesis
    using reach bins free hit same by (intro conjI)
qed

subsection \<open>C3: a rejected placement changes nothing\<close>

text \<open>
  C3. On each of the three rejection paths of \<^verbatim>\<open>place_item_sync\<close> (the bin is missing,
  the item exceeds the bin's width or height, the item overlaps an item of the bin) the
  simulation after the call is the simulation before it: the bins, their item lists and
  the queue. More generally, whenever the returned text is not the success text, the
  simulation is unchanged, also when the command runs through \<^verbatim>\<open>execute_command\<close>.
\<close>

theorem rejection_is_atomic:
  "(map_of (bins s) b = None \<longrightarrow> snd (place_item_sync s iid b px py w h shp ity) = s) \<and>
   (\<forall>d. map_of (bins s) b = Some d \<and> (px + w > bin_width d \<or> py + h > bin_height d)
        \<longrightarrow> snd (place_item_sync s iid b px py w h shp ity) = s) \<and>
   (\<forall>d e. map_of (bins s) b = Some d \<and> e \<in> set (items d) \<and>
          items_overlap (new_item_of iid b px py w h shp ity) e
        \<longrightarrow> snd (place_item_sync s iid b px py w h shp ity) = s) \<and>
   (fst (place_item_sync s iid b px py w h shp ity) \<noteq> msg_placed iid b
        \<longrightarrow> snd (place_item_sync s iid b px py w h shp ity) = s \<and>
            snd (execute_command s (Place_item iid b px py w h shp ity)) = s)"
proof (cases rule: place_cases [of s b iid px py w h shp ity])
  case missing
  then show ?thesis by (simp add: execute_command_def)
next
  case (no_fit d)
  then show ?thesis by (simp add: execute_command_def)
next
  case (overlap d e)
  then show ?thesis by (simp add: execute_command_def)
next
  case (placed d)
  then show ?thesis by (auto simp: first_overlap_None)
qed

theorem rejection_is_atomic_witness:
  "snd (place_item_sync scenario_A 2 99 0 0 50 50 ''RECTANGLE'' ''Rectangle A'') = scenario_A \<and>
   snd (place_item_sync scenario_A 2 0 200 0 50 50 ''RECTANGLE'' ''Rectangle A'') = scenario_A \<and>
   snd (place_item_sync scenario_A 2 0 25 25 50 50 ''RECTANGLE'' ''Rectangle A'') = scenario_A \<and>
   snd (execute_command scenario_A (Place_item 2 0 25 25 50 50 ''RECTANGLE'' ''Rectangle A'')) = scenario_A"
proof -
  let ?d = "\<lparr> bin_width = 220, bin_height = 220,
              items = [new_item_of 1 0 0 0 50 50 ''RECTANGLE'' ''Rectangle A''] \<rparr>"
  have none: "map_of (bins scenario_A) 99 = None"
    and some: "map_of (bins scenario_A) 0 = Some ?d"
    by (simp_all add: run_simps)
  have wide: "(200::real) + 50 > bin_width ?d" by simp
  have hit: "items_overlap (new_item_of 2 0 25 25 50 50 ''RECTANGLE'' ''Rectangle A'')
      (new_item_of 1 0 0 0 50 50 ''RECTANGLE'' ''Rectangle A'')"
    by (simp add: items_overlap_def)
  have msg: "fst (place_item_sync scenario_A 2 0 25 25 50 50 ''RECTANGLE'' ''Rectangle A'')
      \<noteq> msg_placed 2 0"
    by (simp add: run_simps)
  show ?thesis
    using rejection_is_atomic [of scenario_A 99 2 0 0 50 50 "''RECTANGLE''" "''Rectangle A''"]
      rejection_is_atomic [of scenario_A 0 2 200 0 50 50 "''RECTANGLE''" "''Rectangle A''"]
      rejection_is_atomic [of scenario_A 0 2 25 25 50 50 "''RECTANGLE''" "''Rectangle A''"]
      none some wide hit msg
    by auto
qed

subsection \<open>C4: what \<^verbatim>\<open>place_item\<close> returns\<close>

text \<open>
  C4 asks that the caller of the public \<^verbatim>\<open>place_item\<close> learns the outcome of its
  command. The code does not do this. For item 1 sent to the missing bin 99,
  \<^verbatim>\<open>place_item\<close> returns its \<open>Placed item ...\<close> text at once; the command, when the
  drain loop runs it, is rejected (\<^verbatim>\<open>place_item_sync\<close> returns
  \<open>Error: Bin 99 does not exist\<close>), \<^verbatim>\<open>execute_command\<close> drops that text, and the
  simulation ends as it began. The text \<^verbatim>\<open>place_item\<close> returns is the same for every
  simulation it is called on.
\<close>

theorem place_item_hides_rejection:
  "fst (place_item str_num init_simulation 1 99 0 0 50 50 ''RECTANGLE'' ''Rectangle A'')
     = ''Placed item 1 in bin 99 at ('' @ str_num 0 @ '', '' @ str_num 0 @ '')'' \<and>
   command_queue (snd (place_item str_num init_simulation 1 99 0 0 50 50 ''RECTANGLE'' ''Rectangle A''))
     = [Some (Place_item 1 99 0 0 50 50 ''RECTANGLE'' ''Rectangle A'')] \<and>
   fst (place_item_sync init_simulation 1 99 0 0 50 50 ''RECTANGLE'' ''Rectangle A'')
     = ''Error: Bin 99 does not exist'' \<and>
   execute_command init_simulation (Place_item 1 99 0 0 50 50 ''RECTANGLE'' ''Rectangle A'')
     = (Inr (), init_simulation) \<and>
   process_commands
       (snd (place_item str_num init_simulation 1 99 0 0 50 50 ''RECTANGLE'' ''Rectangle A''))
     = (Inr (), init_simulation) \<and>
   fst (place_item str_num s iid b px py w h shp ity)
     = fst (place_item str_num s' iid b px py w h shp ity)"
  by (simp add: run_simps place_item_def process_commands.simps execute_command_def)

subsection \<open>C5: the fit check comes before the overlap loop\<close>

text \<open>
  C5. An item that fails the fit check is rejected with the does-not-fit text and never
  with an overlap text, even if it also overlaps an item of the bin. The bounds test of
  \<^verbatim>\<open>place_item_sync\<close> does come before its overlap loop, but it misses the lower bounds
  (see C1), so an item that fails the fit check of the specification by \<open>x < 0\<close> reaches
  the loop: in bin 0 holding item 1 at (0, 0, 50, 50), item 2 at (-10, 0, 50, 50) is
  rejected with the overlap text.
\<close>

theorem negative_x_reaches_overlap_loop:
  "map_of (bins scenario_A) 0
     = Some \<lparr> bin_width = 220, bin_height = 220,
              items = [new_item_of 1 0 0 0 50 50 ''RECTANGLE'' ''Rectangle A''] \<rparr> \<and>
   \<not> spec_fit_check (- 10) 0 50 50
       \<lparr> bin_width = 220, bin_height = 220,
         items = [new_item_of 1 0 0 0 50 50 ''RECTANGLE'' ''Rectangle A''] \<rparr> \<and>
   place_item_sync scenario_A 2 0 (- 10) 0 50 50 ''RECTANGLE'' ''Rectangle A''
     = (''Error: Item 2 overlaps with existing item 1'', scenario_A)"
  by (simp add: run_simps spec_fit_check_def)

subsection \<open>C6: the texts of the rejections\<close>




subsection \<open>C7: the statistics of \<^verbatim>\<open>get_simulation_state\<close>\<close>

text \<open>
  C7. With no bin the call raises \<^verbatim>\<open>ZeroDivisionError\<close>; with at least one bin it returns
  a state that lists the bins in order, gives each bin the utilization
  \<open>(sum of width * height over its items) / (bin width * bin height) * 100\<close> when the bin's
  area is positive and \<open>0\<close> otherwise (the shape of an item is not read), counts all items,
  and gives as overall utilization the sum of the per-bin values divided by the number of
  bins.
\<close>

theorem snapshot_statistics:
  "(bins s = [] \<longrightarrow> get_simulation_state s = Inl ZeroDivisionError) \<and>
   (bins s \<noteq> [] \<longrightarrow>
      (\<exists>st. get_simulation_state s = Inr st \<and>
         map fst (state_bins st) = map fst (bins s) \<and>
         map (\<lambda>v. utilization (snd v)) (state_bins st)
           = map (\<lambda>e. if bin_width (snd e) * bin_height (snd e) > 0
                       then (\<Sum>item\<leftarrow>items (snd e). width item * height item)
                              / (bin_width (snd e) * bin_height (snd e)) * 100
                       else 0) (bins s) \<and>
         total_items st = (\<Sum>e\<leftarrow>bins s. int (length (items (snd e)))) \<and>
         total_utilization st
           = (\<Sum>v\<leftarrow>state_bins st. utilization (snd v)) / real (length (bins s))))"
proof (intro conjI impI)
  assume "bins s = []"
  then show "get_simulation_state s = Inl ZeroDivisionError"
    by (rule get_simulation_state_empty)
next
  assume "bins s \<noteq> []"
  then show "\<exists>st. get_simulation_state s = Inr st \<and>
         map fst (state_bins st) = map fst (bins s) \<and>
         map (\<lambda>v. utilization (snd v)) (state_bins st)
           = map (\<lambda>e. if bin_width (snd e) * bin_height (snd e) > 0
                       then (\<Sum>item\<leftarrow>items (snd e). width item * height item)
                              / (bin_width (snd e) * bin_height (snd e)) * 100
                       else 0) (bins s) \<and>
         total_items st = (\<Sum>e\<leftarrow>bins s. int (length (items (snd e)))) \<and>
         total_utilization st
           = (\<Sum>v\<leftarrow>state_bins st. utilization (snd v)) / real (length (bins s))"
    by (simp add: get_simulation_state_bins comp_def bin_state_of_def utilization_of_def)
qed

theorem snapshot_statistics_witness:
  "get_simulation_state \<lparr> bins = [], command_queue = [] \<rparr> = Inl ZeroDivisionError \<and>
   (\<exists>st. get_simulation_state
            \<lparr> bins = [(0, \<lparr> bin_width = 200, bin_height = 100,
                           items = [new_item_of 7 0 0 0 100 100 ''TRIANGLE'' ''Triangle Large''] \<rparr>),
                      (1, \<lparr> bin_width = 0, bin_height = 100,
                           items = [new_item_of 8 1 0 0 0 10 ''CIRCLE'' ''Circle Small''] \<rparr>)],
              command_queue = [] \<rparr> = Inr st \<and>
         map (\<lambda>v. utilization (snd v)) (state_bins st) = [50, 0] \<and>
         total_items st = 2 \<and> total_utilization st = 25)"
proof -
  let ?s = "\<lparr> bins = [(0, \<lparr> bin_width = 200, bin_height = 100,
                           items = [new_item_of 7 0 0 0 100 100 ''TRIANGLE'' ''Triangle Large''] \<rparr>),
                      (1, \<lparr> bin_width = 0, bin_height = 100,
                           items = [new_item_of 8 1 0 0 0 10 ''CIRCLE'' ''Circle Small''] \<rparr>)],
              command_queue = [] \<rparr>"
  have "get_simulation_state \<lparr> bins = [], command_queue = [] \<rparr> = Inl ZeroDivisionError"
    using snapshot_statistics [of "\<lparr> bins = [], command_queue = [] \<rparr>"] by simp
  moreover have "\<exists>st. get_simulation_state ?s = Inr st \<and>
         map (\<lambda>v. utilization (snd v)) (state_bins st) = [50, 0] \<and>
         total_items st = 2 \<and> total_utilization st = 25"
    using snapshot_statistics [of ?s] by auto
  ultimately show ?thesis by blast
qed

subsection \<open>C8: reset\<close>

text \<open>
  C8. \<^verbatim>\<open>reset_simulation_sync\<close> empties the item list of every bin and keeps the bins'
  ids, widths and heights, in order, and the queue. It raises nothing when there is a
  bin, and every reachable simulation has its four bins. A second reset in a row gives
  the same outcome and the same simulation as the first. The state computed after a reset
  has no item in any bin, utilization 0 in every bin, 0 items in total and overall
  utilization 0.
\<close>

theorem reset_clears_and_is_idempotent:
  "(bins s \<noteq> [] \<longrightarrow> fst (reset_simulation_sync s) = Inr ()) \<and>
   (reachable s \<longrightarrow> bins s \<noteq> []) \<and>
   map (\<lambda>e. (fst e, bin_width (snd e), bin_height (snd e))) (bins (snd (reset_simulation_sync s)))
     = map (\<lambda>e. (fst e, bin_width (snd e), bin_height (snd e))) (bins s) \<and>
   (\<forall>entry \<in> set (bins (snd (reset_simulation_sync s))). items (snd entry) = []) \<and>
   command_queue (snd (reset_simulation_sync s)) = command_queue s \<and>
   reset_simulation_sync (snd (reset_simulation_sync s)) = reset_simulation_sync s \<and>
   (bins s \<noteq> [] \<longrightarrow>
      (\<exists>st. get_simulation_state (snd (reset_simulation_sync s)) = Inr st \<and>
         map fst (state_bins st) = map fst (bins s) \<and>
         (\<forall>v \<in> set (state_bins st). state_items (snd v) = [] \<and> utilization (snd v) = 0) \<and>
         total_items st = 0 \<and> total_utilization st = 0))"
proof (intro conjI impI)
  assume "bins s \<noteq> []"
  then have "bins (snd (reset_simulation_sync s)) \<noteq> []"
    by (simp add: bins_reset)
  then show "fst (reset_simulation_sync s) = Inr ()"
    by (simp add: fst_reset update_stats_sync_ok)
next
  assume "reachable s"
  then show "bins s \<noteq> []" by (rule reachable_has_bins)
next
  show "map (\<lambda>e. (fst e, bin_width (snd e), bin_height (snd e)))
          (bins (snd (reset_simulation_sync s)))
     = map (\<lambda>e. (fst e, bin_width (snd e), bin_height (snd e))) (bins s)"
    by (rule bin_frames_reset)
next
  show "\<forall>entry \<in> set (bins (snd (reset_simulation_sync s))). items (snd entry) = []"
    by (auto simp: bins_reset)
next
  show "command_queue (snd (reset_simulation_sync s)) = command_queue s"
    by (rule queue_reset)
next
  show "reset_simulation_sync (snd (reset_simulation_sync s)) = reset_simulation_sync s"
    by (rule reset_reset)
next
  assume ne: "bins s \<noteq> []"
  let ?s' = "snd (reset_simulation_sync s)"
  have ne': "bins ?s' \<noteq> []" using ne by (simp add: bins_reset)
  have items: "(\<Sum>e\<leftarrow>bins ?s'. int (length (items (snd e)))) = 0"
    by (rule sum_list_zero) (auto simp: bins_reset)
  have util: "(\<Sum>e\<leftarrow>bins ?s'. utilization_of (snd e)) = 0"
    by (rule sum_list_zero) (auto simp: bins_reset utilization_of_cleared)
  show "\<exists>st. get_simulation_state ?s' = Inr st \<and>
         map fst (state_bins st) = map fst (bins s) \<and>
         (\<forall>v \<in> set (state_bins st). state_items (snd v) = [] \<and> utilization (snd v) = 0) \<and>
         total_items st = 0 \<and> total_utilization st = 0"
    unfolding get_simulation_state_bins [OF ne']
    by (simp add: items util)
       (auto simp: bins_reset comp_def bin_state_of_def utilization_of_cleared)
qed

theorem reset_clears_and_is_idempotent_witness:
  "reset_simulation_sync scenario_C = (Inr (), init_simulation) \<and>
   reset_simulation_sync init_simulation = (Inr (), init_simulation) \<and>
   (\<exists>st. get_simulation_state init_simulation = Inr st \<and>
      total_items st = 0 \<and> total_utilization st = 0)"
proof -
  have bins: "bins scenario_C \<noteq> []"
    by (simp add: run_simps)
  have after: "snd (reset_simulation_sync scenario_C) = init_simulation"
    by (simp add: run_simps reset_simulation_sync_def Let_def)
  have first: "reset_simulation_sync scenario_C = (Inr (), init_simulation)"
    using reset_clears_and_is_idempotent [of scenario_C] bins after
    by (simp add: prod_eq_iff)
  have second: "reset_simulation_sync init_simulation = (Inr (), init_simulation)"
    using reset_clears_and_is_idempotent [of scenario_C] first after by simp
  have "\<exists>st. get_simulation_state init_simulation = Inr st \<and>
      total_items st = 0 \<and> total_utilization st = 0"
    using reset_clears_and_is_idempotent [of scenario_C] bins after by auto
  then show ?thesis using first second by blast
qed

subsection \<open>C9: the scenario of the specification\<close>

text \<open>
  C9, as the claim states it: the rejection of item 2 carries the text
  \<open>item 2 overlaps with existing item 1\<close> and bin 0's utilization is about 1.03 percent.
  Both fail: the text is \<open>Error: Item 2 overlaps with existing item 1\<close>, and the
  utilization \<open>(2500 + 2500) / (220 * 220) * 100\<close> is \<open>1250 / 121\<close>, which is above 10.
\<close>

theorem scenario_counterexample:
  "place_item_sync scenario_A 2 0 25 25 50 50 ''RECTANGLE'' ''Rectangle A''
     = (''Error: Item 2 overlaps with existing item 1'', scenario_A) \<and>
   ''Error: Item 2 overlaps with existing item 1'' \<noteq> ''item 2 overlaps with existing item 1'' \<and>
   get_simulation_state scenario_C
     = Inr \<lparr> state_bins =
               [(0, \<lparr> state_width = 220, state_height = 220,
                      state_items = [(1, ''Rectangle A'', 0, 0, 50, 50, ''RECTANGLE''),
                                     (3, ''Rectangle A'', 60, 0, 50, 50, ''RECTANGLE'')],
                      utilization = 1250 / 121 \<rparr>),
                (1, \<lparr> state_width = 180, state_height = 200, state_items = [],
                      utilization = 0 \<rparr>),
                (2, \<lparr> state_width = 200, state_height = 180, state_items = [],
                      utilization = 0 \<rparr>),
                (3, \<lparr> state_width = 160, state_height = 160, state_items = [],
                      utilization = 0 \<rparr>)],
             total_items = 2, total_utilization = 625 / 242 \<rparr> \<and>
   (10::real) < 1250 / 121"
  by (simp add: run_simps get_simulation_state_def state_step_def Let_def item_entry_def)

text \<open>
  C9, amended. From the fresh simulation with bin 0 of size 220 by 220: placing item 1 at
  (0, 0, 50, 50) succeeds; placing item 2 at (25, 25, 50, 50) is rejected with
  \<open>Error: Item 2 overlaps with existing item 1\<close> and changes nothing; placing item 3 at
  (60, 0, 50, 50) succeeds; the state then reports for bin 0 the utilization
  \<open>(2500 + 2500) / (220 * 220) * 100 = 1250 / 121\<close>, between 10.33 and 10.34 percent.
\<close>

theorem scenario_outcomes:
  "place_item_sync init_simulation 1 0 0 0 50 50 ''RECTANGLE'' ''Rectangle A''
     = (''Successfully placed item 1 in bin 0'', scenario_A) \<and>
   place_item_sync scenario_A 2 0 25 25 50 50 ''RECTANGLE'' ''Rectangle A''
     = (''Error: Item 2 overlaps with existing item 1'', scenario_B) \<and>
   scenario_B = scenario_A \<and>
   place_item_sync scenario_B 3 0 60 0 50 50 ''RECTANGLE'' ''Rectangle A''
     = (''Successfully placed item 3 in bin 0'', scenario_C) \<and>
   map_option (\<lambda>d. map item_id (items d)) (map_of (bins scenario_C) 0) = Some [1, 3] \<and>
   (\<exists>st. get_simulation_state scenario_C = Inr st \<and>
      map_option utilization (map_of (state_bins st) 0)
        = Some ((2500 + 2500) / (220 * 220) * 100) \<and>
      map_option utilization (map_of (state_bins st) 0) = Some (1250 / 121)) \<and>
   (1033 / 100 :: real) < 1250 / 121 \<and> (1250 / 121 :: real) < 1034 / 100"
  by (simp add: run_simps get_simulation_state_def state_step_def Let_def item_entry_def)

subsection \<open>C10: the bin lookup comes before the geometric checks\<close>

text \<open>
  C10. When the target bin id is not a key of the bins, the placement is rejected with the
  bin-does-not-exist text and the simulation is unchanged, whatever the item's position,
  size, shape and type are: the result is the same for any two geometries, so neither the
  bounds test nor the overlap loop has a say. With C5 the order is: bin lookup, fit, overlap.
\<close>

theorem bin_existence_checked_first:
  "map_of (bins s) b = None \<Longrightarrow>
   place_item_sync s iid b px py w h shp ity
     = (''Error: Bin '' @ str_int b @ '' does not exist'', s) \<and>
   place_item_sync s iid b px' py' w' h' shp' ity' = place_item_sync s iid b px py w h shp ity"
  by (simp add: place_missing)

theorem bin_existence_checked_first_witness:
  "map_of (bins scenario_A) 99 = None \<and>
   place_item_sync scenario_A 2 99 500 500 50 50 ''RECTANGLE'' ''Rectangle A''
     = (''Error: Bin 99 does not exist'', scenario_A) \<and>
   place_item_sync scenario_A 2 99 25 25 50 50 ''RECTANGLE'' ''Rectangle A''
     = (''Error: Bin 99 does not exist'', scenario_A)"
proof -
  have none: "map_of (bins scenario_A) 99 = None"
    by (simp add: run_simps)
  have str: "str_int 99 = ''99''"
    by (simp add: str_int_def str_nat.simps)
  show ?thesis
    using none bin_existence_checked_first [OF none, of 2 500 500 50 50 "''RECTANGLE''" "''Rectangle A''"]
      bin_existence_checked_first [OF none, of 2 25 25 50 50 "''RECTANGLE''" "''Rectangle A''"]
    by (simp add: str)
qed

end
